theory Spec2Isabelle
  imports Complex_Main
begin

section \<open>MoodSync: weekly mood statistics and insight scoring\<close>

text \<open>
  A shallow embedding of the statistics and insight code of
  \<^verbatim>\<open>src/app/components/insights/MoodInsights.tsx\<close>, with the mood types of
  \<^verbatim>\<open>src/app/components/mood/MoodSelector.tsx\<close> and the data schema of
  \<^verbatim>\<open>src/amplify/data/resource.ts\<close>.

  Conventions of the embedding:
  \<^item> a JavaScript \<^verbatim>\<open>number\<close> that holds a count is a \<open>nat\<close>, one that holds a
    schema \<^verbatim>\<open>a.integer()\<close> is an \<open>int\<close>, and one that holds a quotient is an exact
    \<open>real\<close> (the rounding error of IEEE doubles is not modelled);
  \<^item> a \<^verbatim>\<open>Record<string, number>\<close> is an association list in key insertion order, the
    order in which \<^verbatim>\<open>Object.entries\<close> and \<^verbatim>\<open>Object.keys\<close> enumerate string keys;
  \<^item> the nullable React state \<^verbatim>\<open>weeklyStats\<close> is an \<open>option\<close>;
  \<^item> a thrown exception is the \<open>Inl\<close> of a sum.
\<close>

subsection \<open>Data model\<close>

text \<open>The keys of \<^verbatim>\<open>MOOD_TYPES\<close>, in declaration order; also the schema's enum.\<close>

datatype MoodType = HAPPY | SAD | ENERGETIC | CALM | ANXIOUS

text \<open>
  The fields of the schema's \<^verbatim>\<open>Mood\<close> model that the statistics read. The date is the
  stored \<^verbatim>\<open>a.date()\<close> string; only its equality is used.
\<close>

record Mood =
  moodType :: MoodType
  intensity :: int
  date :: string

text \<open>The \<^verbatim>\<open>weeklyStats\<close> state of the component.\<close>

record WeeklyStats =
  totalMoods :: nat
  averageIntensity :: real
  moodDistribution :: "(MoodType \<times> nat) list"
  moodStreak :: nat

subsection \<open>generateWeeklyStats\<close>

text \<open>\<^verbatim>\<open>Math.round\<close>: the nearest integer, a tie rounded towards plus infinity.\<close>

definition Math_round :: "real \<Rightarrow> int" where
  "Math_round x = \<lfloor>x + 1 / 2\<rfloor>"

text \<open>
  The reducer of the mood distribution,
  \<^verbatim>\<open>acc[mood.moodType] = (acc[mood.moodType] || 0) + 1\<close>: a key that is present keeps
  its place and its count grows by one; a new key is appended with count one.
\<close>

fun countMood :: "(MoodType \<times> nat) list \<Rightarrow> Mood \<Rightarrow> (MoodType \<times> nat) list" where
  "countMood [] mood = [(moodType mood, 1)]"
| "countMood ((k, v) # acc) mood =
     (if k = moodType mood then (k, v + 1) # acc else (k, v) # countMood acc mood)"

text \<open>\<^verbatim>\<open>new Set(moods.map(mood => mood.date)).size\<close>\<close>

definition calculateMoodStreak :: "Mood list \<Rightarrow> nat" where
  "calculateMoodStreak moods = card (set (map date moods))"

text \<open>
  The body of \<^verbatim>\<open>generateWeeklyStats\<close> once the store's query has answered with
  \<^verbatim>\<open>result.data = moods\<close>: the record handed to \<^verbatim>\<open>setWeeklyStats\<close>.
\<close>

definition generateWeeklyStats :: "Mood list \<Rightarrow> WeeklyStats" where
  "generateWeeklyStats moods =
     (let total = length moods;
          average = (if total > 0
                     then real_of_int (foldl (\<lambda>sum mood. sum + intensity mood) 0 moods) / real total
                     else 0);
          distribution = foldl countMood [] moods;
          streak = calculateMoodStreak moods
      in \<lparr> totalMoods = total,
           averageIntensity = real_of_int (Math_round (average * 10)) / 10,
           moodDistribution = distribution,
           moodStreak = streak \<rparr>)"

subsection \<open>calculateWeeklyScore and getOverallTrend\<close>

definition calculateWeeklyScore :: "WeeklyStats option \<Rightarrow> int" where
  "calculateWeeklyScore weeklyStats =
     (case weeklyStats of
        None \<Rightarrow> 5
      | Some stats \<Rightarrow>
          (let score = 5;
               score = (if averageIntensity stats \<ge> 7 then score + 2
                        else if averageIntensity stats \<ge> 5 then score + 1
                        else if averageIntensity stats \<le> 3 then score - 2
                        else score);
               moodDiversity = length (moodDistribution stats);
               score = (if moodDiversity \<ge> 4 then score + 1 else score);
               score = (if moodDiversity \<le> 2 then score - 1 else score);
               score = (if moodStreak stats \<ge> 6 then score + 1
                        else if moodStreak stats \<le> 2 then score - 1
                        else score)
           in max 1 (min 10 score)))"

definition getOverallTrend :: "WeeklyStats option \<Rightarrow> string" where
  "getOverallTrend weeklyStats =
     (case weeklyStats of
        None \<Rightarrow> ''neutral''
      | Some stats \<Rightarrow>
          if averageIntensity stats \<ge> 7 then ''positive''
          else if averageIntensity stats \<le> 4 then ''challenging''
          else ''stable'')"

subsection \<open>generateMockRecommendations\<close>

text \<open>\<^verbatim>\<open>Array.prototype.join\<close> with a separator.\<close>

fun join :: "string \<Rightarrow> string list \<Rightarrow> string" where
  "join sep [] = []"
| "join sep [s] = s"
| "join sep (s # t # rest) = s @ sep @ join sep (t # rest)"

text \<open>The sentences of \<^verbatim>\<open>generateMockRecommendations\<close>, named.\<close>

definition calmingSuggestion :: string where
  "calmingSuggestion =
     ''Consider practicing deep breathing exercises or meditation to help manage anxiety levels.''"

definition socialSupportSuggestion :: string where
  "socialSupportSuggestion =
     ''Try engaging in activities that bring you joy, or reach out to friends and family for support.''"

definition positivitySuggestion :: string where
  "positivitySuggestion =
     ''Great job maintaining positive energy! Consider sharing your happiness with others.''"

definition channelEnergySuggestion :: string where
  "channelEnergySuggestion =
     ''Channel your energy into productive activities or creative pursuits.''"

definition reflectionSuggestion :: string where
  "reflectionSuggestion =
     ''Your calm state is wonderful for reflection and planning. Use this time for goal setting.''"

definition consistencyReminder :: string where
  "consistencyReminder =
     ''Try to track your mood daily for better insights into your emotional patterns.''"

definition genericEncouragement :: string where
  "genericEncouragement =
     ''Keep up the great work with mood tracking! Consistency helps build emotional awareness.''"

text \<open>
  The \<^verbatim>\<open>if\<close>/\<^verbatim>\<open>else if\<close> chain pushes at most one mood sentence, the second
  \<^verbatim>\<open>if\<close> pushes the reminder, and \<^verbatim>\<open>join(' ') || generic\<close> returns the generic
  sentence when the joined string is empty (falsy). Absent statistics give the empty
  string.
\<close>

definition generateMockRecommendations :: "WeeklyStats option \<Rightarrow> MoodType \<Rightarrow> string" where
  "generateMockRecommendations weeklyStats dominantMood =
     (case weeklyStats of
        None \<Rightarrow> []
      | Some stats \<Rightarrow>
          (let recommendations = [];
               recommendations =
                 (if dominantMood = ANXIOUS \<and> averageIntensity stats > 6
                    then recommendations @ [calmingSuggestion]
                  else if dominantMood = SAD \<and> averageIntensity stats > 5
                    then recommendations @ [socialSupportSuggestion]
                  else if dominantMood = HAPPY \<and> averageIntensity stats > 7
                    then recommendations @ [positivitySuggestion]
                  else if dominantMood = ENERGETIC
                    then recommendations @ [channelEnergySuggestion]
                  else if dominantMood = CALM
                    then recommendations @ [reflectionSuggestion]
                  else recommendations);
               recommendations =
                 (if moodStreak stats < 3 then recommendations @ [consistencyReminder]
                  else recommendations);
               joined = join '' '' recommendations
           in if joined \<noteq> [] then joined else genericEncouragement))"

text \<open>
  The rule table as the specification words it: one row per mood type, read
  independently of the others; \<open>None\<close> is "no mood-specific sentence".
\<close>

fun specMoodRule :: "MoodType \<Rightarrow> real \<Rightarrow> string option" where
  "specMoodRule ANXIOUS avg = (if avg > 6 then Some calmingSuggestion else None)"
| "specMoodRule SAD avg = (if avg > 5 then Some socialSupportSuggestion else None)"
| "specMoodRule HAPPY avg = (if avg > 7 then Some positivitySuggestion else None)"
| "specMoodRule ENERGETIC avg = Some channelEnergySuggestion"
| "specMoodRule CALM avg = Some reflectionSuggestion"

subsection \<open>The dominant mood\<close>

datatype error = TypeError

text \<open>
  \<^verbatim>\<open>Array.prototype.reduce\<close> without an initial value: the first element starts the
  accumulator, and an empty array throws a \<^verbatim>\<open>TypeError\<close>.
\<close>

fun reduce :: "('a \<Rightarrow> 'a \<Rightarrow> 'a) \<Rightarrow> 'a list \<Rightarrow> error + 'a" where
  "reduce f [] = Inl TypeError"
| "reduce f (x # xs) = Inr (foldl f x xs)"

text \<open>
  \<^verbatim>\<open>Object.entries(weeklyStats.moodDistribution).reduce((a, b) => a[1] > b[1] ? a : b)\<close>
\<close>

definition dominantMoodEntry :: "(MoodType \<times> nat) list \<Rightarrow> error + (MoodType \<times> nat)" where
  "dominantMoodEntry distribution =
     reduce (\<lambda>a b. if snd a > snd b then a else b) distribution"

text \<open>
  The dominant-mood path of \<^verbatim>\<open>generateAIInsight\<close> on its own: the guard of lines
  138 to 141 (\<open>Inr None\<close>: the function returns before any mood is selected), then the
  selection of lines 151 to 153.
\<close>

definition classifyDominantMood :: "WeeklyStats option \<Rightarrow> error + MoodType option" where
  "classifyDominantMood weeklyStats =
     (case weeklyStats of
        None \<Rightarrow> Inr None
      | Some stats \<Rightarrow>
          if totalMoods stats = 0 then Inr None
          else (case dominantMoodEntry (moodDistribution stats) of
                  Inl e \<Rightarrow> Inl e
                | Inr entry \<Rightarrow> Inr (Some (fst entry))))"

subsection \<open>Dates and the start of the week\<close>

text \<open>
  A JavaScript \<^verbatim>\<open>Date\<close> is its time value: milliseconds since 1970-01-01T00:00Z.
  The local time zone is a parameter \<open>tz\<close>, the minutes local time is ahead of UTC
  (the negation of \<^verbatim>\<open>getTimezoneOffset()\<close>), taken constant over the days involved.
  \<open>Day\<close> and \<open>WeekDay\<close> are ECMAScript's abstract operations: day 0 is a Thursday and
  week day 0 is Sunday.
\<close>

type_synonym Date = int

definition msPerDay :: int where
  "msPerDay = 86400000"

definition LocalTime :: "int \<Rightarrow> Date \<Rightarrow> int" where
  "LocalTime tz t = t + tz * 60000"

definition UTC :: "int \<Rightarrow> int \<Rightarrow> Date" where
  "UTC tz t = t - tz * 60000"

definition Day :: "int \<Rightarrow> int" where
  "Day t = t div msPerDay"

definition TimeWithinDay :: "int \<Rightarrow> int" where
  "TimeWithinDay t = t mod msPerDay"

definition WeekDay :: "int \<Rightarrow> int" where
  "WeekDay t = (Day t + 4) mod 7"

definition getDay :: "int \<Rightarrow> Date \<Rightarrow> int" where
  "getDay tz d = WeekDay (LocalTime tz d)"

text \<open>
  \<^verbatim>\<open>d.setDate(d.getDate() + k)\<close>: \<^verbatim>\<open>setDate\<close> rebuilds the local time from the day
  \<^verbatim>\<open>MakeDay(year, month, date)\<close>, which for a date outside the month runs on into the
  neighbouring months, and the unchanged time within the day; so the local day moves
  by \<open>k\<close>.
\<close>

definition addToDate :: "int \<Rightarrow> Date \<Rightarrow> int \<Rightarrow> Date" where
  "addToDate tz d k =
     (let t = LocalTime tz d
      in UTC tz ((Day t + k) * msPerDay + TimeWithinDay t))"

text \<open>\<^verbatim>\<open>d.setHours(0, 0, 0, 0)\<close>: local midnight of the same local day.\<close>

definition setHours0 :: "int \<Rightarrow> Date \<Rightarrow> Date" where
  "setHours0 tz d = UTC tz (Day (LocalTime tz d) * msPerDay)"

text \<open>
  \<^verbatim>\<open>monday.setDate(now.getDate() - now.getDay() + 1); monday.setHours(0, 0, 0, 0)\<close>
\<close>

definition getCurrentWeekStart :: "int \<Rightarrow> Date \<Rightarrow> Date" where
  "getCurrentWeekStart tz now =
     (let monday = now;
          monday = addToDate tz monday (- getDay tz now + 1);
          monday = setHours0 tz monday
      in monday)"

text \<open>
  \<^verbatim>\<open>d.toISOString().split('T')[0]\<close>: the UTC calendar date of the instant, here as its
  day number (the date string and the day number determine each other).
\<close>

definition isoDate :: "Date \<Rightarrow> int" where
  "isoDate d = Day d"

text \<open>
  The Monday of the ISO week of a calendar day, as the specification words it: ISO weeks
  run from Monday to Sunday, and \<open>(day + 3) mod 7\<close> is the number of days since Monday.
\<close>

definition specMondayOfISOWeek :: "int \<Rightarrow> int" where
  "specMondayOfISOWeek day = day - (day + 3) mod 7"

subsection \<open>The insight store and generateAIInsight\<close>

text \<open>
  The schema's \<^verbatim>\<open>MoodInsight\<close> model; its identifier is
  \<^verbatim>\<open>.identifier(["userId", "weekStartDate"])\<close>. \<^verbatim>\<open>moodFrequency\<close> keeps the
  distribution that \<^verbatim>\<open>JSON.stringify\<close> serialises.
\<close>

record MoodInsight =
  userId :: string
  weekStartDate :: int
  weekEndDate :: int
  overallMoodTrend :: string
  dominantMood :: MoodType
  moodVariability :: real
  insights :: string
  recommendations :: string
  moodFrequency :: "(MoodType \<times> nat) list"
  weeklyScore :: int

definition insightKey :: "MoodInsight \<Rightarrow> string \<times> int" where
  "insightKey i = (userId i, weekStartDate i)"

datatype storeError = DuplicateKey

text \<open>
  Modelled from the spec: the Insight Store's \<^verbatim>\<open>createInsight\<close>, which is the managed
  backend's \<^verbatim>\<open>client.models.MoodInsight.create\<close> and not code of the repository. The
  specification gives it insert-if-absent semantics on the key (ownerId, weekStartDate):
  it "must reject if (ownerId, weekStartDate) already exists", with
  \<^verbatim>\<open>failure(DuplicateKey)\<close>. The store is the list of the persisted records.
\<close>

definition createInsight ::
  "MoodInsight \<Rightarrow> MoodInsight list \<Rightarrow> (storeError + MoodInsight) \<times> MoodInsight list" where
  "createInsight i store =
     (if insightKey i \<in> set (map insightKey store) then (Inl DuplicateKey, store)
      else (Inr i, store @ [i]))"

text \<open>The states of the store: empty at first, then changed by \<open>createInsight\<close> only.\<close>

inductive reachable :: "MoodInsight list \<Rightarrow> bool" where
  initial: "reachable []"
| create: "reachable store \<Longrightarrow> reachable (snd (createInsight i store))"

text \<open>
  What one run of \<^verbatim>\<open>generateAIInsight\<close> ends in: the "not enough data" alert and
  return of the guard; the "failed to generate" alert of the \<^verbatim>\<open>catch\<close>; a created
  record (\<^verbatim>\<open>newInsight.data\<close>) put into the component's state; or a create that
  answered without data, after which nothing is shown.
\<close>

datatype outcome = NotEnoughData | Failed | Created MoodInsight | NoData

text \<open>
  \<^verbatim>\<open>generateAIInsight\<close>, with the clock (\<open>tz\<close>, \<open>now\<close>), the component state it reads
  (\<open>currentUserId\<close>, \<open>weeklyStats\<close>) and the store as arguments. The insight sentences
  of \<^verbatim>\<open>generateMockAIInsights\<close> render numbers as text; no property below depends on
  them, so the function is the argument \<open>mockAIInsights\<close>.
\<close>

definition generateAIInsight ::
  "(WeeklyStats option \<Rightarrow> MoodType \<Rightarrow> string) \<Rightarrow> int \<Rightarrow> Date \<Rightarrow> string \<Rightarrow>
     WeeklyStats option \<Rightarrow> MoodInsight list \<Rightarrow> outcome \<times> MoodInsight list" where
  "generateAIInsight mockAIInsights tz now currentUserId weeklyStats store =
     (case weeklyStats of
        None \<Rightarrow> (NotEnoughData, store)
      | Some stats \<Rightarrow>
          if totalMoods stats = 0 then (NotEnoughData, store)
          else
            (let currentWeek = getCurrentWeekStart tz now;
                 weekEnd = addToDate tz currentWeek 6
             in case dominantMoodEntry (moodDistribution stats) of
                  Inl e \<Rightarrow> (Failed, store)
                | Inr entry \<Rightarrow>
                    (let dominant = fst entry;
                         moodTypes = length (moodDistribution stats);
                         newInsight = createInsight
                           \<lparr> userId = currentUserId,
                             weekStartDate = isoDate currentWeek,
                             weekEndDate = isoDate weekEnd,
                             overallMoodTrend = getOverallTrend weeklyStats,
                             dominantMood = dominant,
                             moodVariability = real moodTypes / 5,
                             insights = mockAIInsights weeklyStats dominant,
                             recommendations = generateMockRecommendations weeklyStats dominant,
                             moodFrequency = moodDistribution stats,
                             weeklyScore = calculateWeeklyScore weeklyStats \<rparr>
                           store
                     in case fst newInsight of
                          Inr data \<Rightarrow> (Created data, snd newInsight)
                        | Inl e \<Rightarrow> (NoData, snd newInsight))))"

subsection \<open>The specification's notion of a valid entry\<close>

text \<open>
  The entries the specification wants aggregated: those whose intensity lies in the
  documented range 1 to 10. (A malformed date has no counterpart here: the schema's
  \<^verbatim>\<open>a.date()\<close> field excludes it.)
\<close>

definition specValidEntry :: "Mood \<Rightarrow> bool" where
  "specValidEntry m = (1 \<le> intensity m \<and> intensity m \<le> 10)"

section \<open>Properties\<close>

subsection \<open>Auxiliary facts: the distribution reducer\<close>

lemma countMood_sum: "sum_list (map snd (countMood acc m)) = sum_list (map snd acc) + 1"
  by (induction acc m rule: countMood.induct) auto

lemma countMood_keys: "fst ` set (countMood acc m) = insert (moodType m) (fst ` set acc)"
  by (induction acc m rule: countMood.induct) auto

lemma countMood_distinct: "distinct (map fst acc) \<Longrightarrow> distinct (map fst (countMood acc m))"
  by (induction acc m rule: countMood.induct) (auto simp: countMood_keys)

lemma countMood_positive: "\<forall>e\<in>set acc. 1 \<le> snd e \<Longrightarrow> \<forall>e\<in>set (countMood acc m). 1 \<le> snd e"
  by (induction acc m rule: countMood.induct) auto

lemma countMood_map_of:
  "map_of (countMood acc m) =
     (map_of acc)(moodType m \<mapsto> (case map_of acc (moodType m) of None \<Rightarrow> 1 | Some v \<Rightarrow> v + 1))"
  by (induction acc m rule: countMood.induct) (auto simp: fun_eq_iff)

lemma foldl_countMood_sum:
  "sum_list (map snd (foldl countMood acc moods)) = sum_list (map snd acc) + length moods"
  by (induction moods arbitrary: acc) (simp_all add: countMood_sum)

lemma foldl_countMood_keys:
  "fst ` set (foldl countMood acc moods) = fst ` set acc \<union> moodType ` set moods"
  by (induction moods arbitrary: acc) (simp_all add: countMood_keys)

lemma foldl_countMood_distinct:
  "distinct (map fst acc) \<Longrightarrow> distinct (map fst (foldl countMood acc moods))"
  by (induction moods arbitrary: acc) (simp_all add: countMood_distinct)

lemma foldl_countMood_positive:
  "\<forall>e\<in>set acc. 1 \<le> snd e \<Longrightarrow> \<forall>e\<in>set (foldl countMood acc moods). 1 \<le> snd e"
proof (induction moods arbitrary: acc)
  case Nil
  then show ?case by simp
next
  case (Cons a moods)
  have "\<forall>e\<in>set (countMood acc a). 1 \<le> snd e"
    using Cons.prems by (rule countMood_positive)
  then show ?case using Cons.IH by simp
qed

lemma foldl_countMood_map_of:
  "map_of (foldl countMood acc moods) k =
     (case map_of acc k of
        None \<Rightarrow> (if k \<in> moodType ` set moods then Some (length (filter (\<lambda>m. moodType m = k) moods)) else None)
      | Some v \<Rightarrow> Some (v + length (filter (\<lambda>m. moodType m = k) moods)))"
  by (induction moods arbitrary: acc) (auto simp: countMood_map_of split: option.splits)

lemma foldl_intensity_sum:
  "foldl (\<lambda>sum mood. sum + intensity mood) a moods = a + sum_list (map intensity moods)"
  by (induction moods arbitrary: a) simp_all

subsection \<open>Auxiliary facts: rounding and the fields of the statistics\<close>

lemma Math_round_bounds:
  "real_of_int (Math_round x) \<le> x + 1 / 2" "x - 1 / 2 < real_of_int (Math_round x)"
  unfolding Math_round_def by linarith+

lemma rounded_close:
  "\<bar>real_of_int (Math_round (x * 10)) / 10 - x\<bar> \<le> 1 / 20"
  using Math_round_bounds[of "x * 10"] by linarith

lemma Math_round_mono: "x \<le> y \<Longrightarrow> Math_round x \<le> Math_round y"
  unfolding Math_round_def by (simp add: floor_mono)

lemma Math_round_of_int: "Math_round (real_of_int k) = k"
  unfolding Math_round_def by linarith

lemma generateWeeklyStats_total: "totalMoods (generateWeeklyStats moods) = length moods"
  by (simp add: generateWeeklyStats_def Let_def)

lemma generateWeeklyStats_distribution:
  "moodDistribution (generateWeeklyStats moods) = foldl countMood [] moods"
  by (simp add: generateWeeklyStats_def Let_def)

lemma generateWeeklyStats_streak:
  "moodStreak (generateWeeklyStats moods) = card (date ` set moods)"
  by (simp add: generateWeeklyStats_def Let_def calculateMoodStreak_def)

lemma generateWeeklyStats_average:
  "averageIntensity (generateWeeklyStats moods) =
     real_of_int (Math_round
       ((if moods = [] then 0
         else real_of_int (sum_list (map intensity moods)) / real (length moods)) * 10)) / 10"
  by (simp add: generateWeeklyStats_def Let_def foldl_intensity_sum)

lemma sum_list_bounds:
  fixes f :: "'a \<Rightarrow> int"
  assumes "\<forall>x\<in>set xs. lo \<le> f x \<and> f x \<le> hi"
  shows "lo * int (length xs) \<le> sum_list (map f xs) \<and> sum_list (map f xs) \<le> hi * int (length xs)"
  using assms by (induction xs) (auto simp: algebra_simps)

lemmas stats_simps = generateWeeklyStats_def Let_def Math_round_def calculateMoodStreak_def

subsection \<open>Auxiliary facts: the selection of the dominant mood\<close>

text \<open>
  The reduction \<^verbatim>\<open>(a, b) => a[1] > b[1] ? a : b\<close> keeps the accumulator only when it
  is strictly greater, so it ends on the last entry of maximal count: everything before
  it is at most as large, everything after it strictly smaller.
\<close>

lemma foldl_last_max:
  fixes x :: "'a \<times> nat"
  shows "\<exists>pre post. x # xs = pre @ foldl (\<lambda>a b. if snd a > snd b then a else b) x xs # post
     \<and> (\<forall>e\<in>set pre. snd e \<le> snd (foldl (\<lambda>a b. if snd a > snd b then a else b) x xs))
     \<and> (\<forall>e\<in>set post. snd e < snd (foldl (\<lambda>a b. if snd a > snd b then a else b) x xs))"
proof (induction xs rule: rev_induct)
  case Nil
  show ?case
  proof (intro exI conjI)
    show "[x] = [] @ foldl (\<lambda>a b. if snd a > snd b then a else b) x [] # []" by simp
  qed simp_all
next
  case (snoc y xs)
  let ?f = "\<lambda>a b. if snd a > snd b then a else (b :: 'a \<times> nat)"
  let ?r = "foldl ?f x xs"
  from snoc obtain pre post where
    d: "x # xs = pre @ ?r # post" and
    p: "\<forall>e\<in>set pre. snd e \<le> snd ?r" and
    q: "\<forall>e\<in>set post. snd e < snd ?r" by (elim exE conjE)
  show ?case
  proof (cases "snd ?r > snd y")
    case True
    then have r: "foldl ?f x (xs @ [y]) = ?r" by simp
    show ?thesis
    proof (intro exI conjI)
      show "x # xs @ [y] = pre @ foldl ?f x (xs @ [y]) # (post @ [y])"
        using d by (simp only: r) simp
      show "\<forall>e\<in>set pre. snd e \<le> snd (foldl ?f x (xs @ [y]))"
        using p by (simp only: r)
      show "\<forall>e\<in>set (post @ [y]). snd e < snd (foldl ?f x (xs @ [y]))"
        using q True by (simp only: r) simp
    qed
  next
    case False
    then have r: "foldl ?f x (xs @ [y]) = y" by simp
    have le: "snd e \<le> snd y" if "e \<in> set (x # xs)" for e
    proof -
      have "e \<in> set (pre @ ?r # post)" using that by (simp only: d)
      then have "e \<in> set pre \<or> e = ?r \<or> e \<in> set post" by auto
      moreover have "snd ?r \<le> snd y" using False by simp
      ultimately show ?thesis using p q by (auto intro: order_trans less_imp_le)
    qed
    show ?thesis
    proof (intro exI conjI)
      show "x # xs @ [y] = (x # xs) @ foldl ?f x (xs @ [y]) # []"
        by (simp only: r) simp
      show "\<forall>e\<in>set (x # xs). snd e \<le> snd (foldl ?f x (xs @ [y]))"
        using le by (simp only: r) blast
      show "\<forall>e\<in>set []. snd e < snd (foldl ?f x (xs @ [y]))"
        by simp
    qed
  qed
qed

subsection \<open>Auxiliary facts: the week\<close>

lemmas date_simps = getCurrentWeekStart_def addToDate_def setHours0_def getDay_def WeekDay_def
  Day_def TimeWithinDay_def LocalTime_def UTC_def msPerDay_def isoDate_def Let_def

lemma specMondayOfISOWeek_is_monday:
  "WeekDay (specMondayOfISOWeek day * msPerDay) = 1
   \<and> specMondayOfISOWeek day \<le> day \<and> day \<le> specMondayOfISOWeek day + 6"
proof -
  have "(day - (day + 3) mod 7 + 4) mod 7 = 1" by presburger
  moreover have "0 \<le> (day + 3) mod 7 \<and> (day + 3) mod 7 \<le> 6" by presburger
  ultimately show ?thesis
    by (simp add: WeekDay_def Day_def msPerDay_def specMondayOfISOWeek_def)
qed

lemma getCurrentWeekStart_local_day:
  "Day (LocalTime tz (getCurrentWeekStart tz now)) = Day (LocalTime tz now) - getDay tz now + 1"
  by (simp add: date_simps)

text \<open>From Monday to Saturday the local day of the result is the ISO week's Monday.\<close>

lemma getCurrentWeekStart_not_sunday:
  assumes "getDay tz now \<noteq> 0"
  shows "Day (LocalTime tz (getCurrentWeekStart tz now)) = specMondayOfISOWeek (Day (LocalTime tz now))"
proof -
  define d where "d = Day (LocalTime tz now)"
  have g: "getDay tz now = (d + 4) mod 7" by (simp add: getDay_def WeekDay_def d_def)
  have "(d + 3) mod 7 = (d + 4) mod 7 - 1" using assms g by presburger
  then show ?thesis
    unfolding getCurrentWeekStart_local_day specMondayOfISOWeek_def d_def[symmetric] g by simp
qed

text \<open>On a Sunday it is the Monday after: seven days past the ISO week's Monday.\<close>

lemma getCurrentWeekStart_sunday:
  assumes "getDay tz now = 0"
  shows "Day (LocalTime tz (getCurrentWeekStart tz now))
           = specMondayOfISOWeek (Day (LocalTime tz now)) + 7"
proof -
  define d where "d = Day (LocalTime tz now)"
  have g: "getDay tz now = (d + 4) mod 7" by (simp add: getDay_def WeekDay_def d_def)
  have "(d + 3) mod 7 = 6" using assms g by presburger
  then show ?thesis
    unfolding getCurrentWeekStart_local_day specMondayOfISOWeek_def d_def[symmetric] using assms by simp
qed

text \<open>
  The result is a local midnight, and the stored date is its UTC calendar date: in a time
  zone ahead of UTC that is the day before the local day of the result.
\<close>

lemma getCurrentWeekStart_midnight:
  "getCurrentWeekStart tz now = UTC tz (Day (LocalTime tz (getCurrentWeekStart tz now)) * msPerDay)"
  by (simp add: date_simps)

lemma weekStartDate_east_of_utc:
  assumes "0 < tz" and "tz \<le> 840"
  shows "isoDate (getCurrentWeekStart tz now) = Day (LocalTime tz (getCurrentWeekStart tz now)) - 1"
proof -
  define D where "D = Day (LocalTime tz (getCurrentWeekStart tz now))"
  define r where "r = msPerDay - tz * 60000"
  have r: "0 \<le> r" "r < msPerDay"
    using assms by (simp_all add: r_def msPerDay_def)
  have "getCurrentWeekStart tz now = (D - 1) * msPerDay + r"
    using getCurrentWeekStart_midnight [of tz now]
    by (simp add: D_def r_def UTC_def algebra_simps)
  then have "isoDate (getCurrentWeekStart tz now) = ((D - 1) * msPerDay + r) div msPerDay"
    by (simp add: isoDate_def Day_def)
  also have "\<dots> = D - 1"
    using r by (simp add: msPerDay_def)
  finally show ?thesis by (simp add: D_def)
qed

text \<open>The end of the week is always six days after its start.\<close>

lemma weekEnd_is_weekStart_plus_6:
  "isoDate (addToDate tz (getCurrentWeekStart tz now) 6) = isoDate (getCurrentWeekStart tz now) + 6"
  by (simp add: date_simps)

subsection \<open>Auxiliary facts: the insight store\<close>

lemma createInsight_distinct:
  "distinct (map insightKey store) \<Longrightarrow> distinct (map insightKey (snd (createInsight i store)))"
  by (simp add: createInsight_def)

lemma reachable_distinct: "reachable store \<Longrightarrow> distinct (map insightKey store)"
  by (induction rule: reachable.induct) (simp_all add: createInsight_distinct)

lemma count_key:
  "distinct (map insightKey store) \<Longrightarrow>
     length (filter (\<lambda>j. insightKey j = k) store) = (if k \<in> insightKey ` set store then 1 else 0)"
  by (induction store) auto

lemma createInsight_twice:
  "createInsight i (snd (createInsight i store)) = (Inl DuplicateKey, snd (createInsight i store))"
  by (simp add: createInsight_def)

lemma createInsight_key_present:
  "insightKey i \<in> insightKey ` set (snd (createInsight i store))"
  by (simp add: createInsight_def)

lemma generateAIInsight_store:
  "snd (generateAIInsight mockAIInsights tz now currentUserId weeklyStats store) = store
   \<or> (\<exists>i. snd (generateAIInsight mockAIInsights tz now currentUserId weeklyStats store)
             = snd (createInsight i store))"
  by (auto simp: generateAIInsight_def Let_def split: option.split sum.split)

lemma generateAIInsight_reachable:
  assumes "reachable store"
  shows "reachable (snd (generateAIInsight mockAIInsights tz now currentUserId weeklyStats store))"
  using generateAIInsight_store [of mockAIInsights tz now currentUserId weeklyStats store] assms
  by (auto intro: reachable.create)

lemma generateAIInsight_created:
  assumes "fst (generateAIInsight mockAIInsights tz now currentUserId weeklyStats store) = Created ins"
  shows "insightKey ins = (currentUserId, isoDate (getCurrentWeekStart tz now))
       \<and> snd (generateAIInsight mockAIInsights tz now currentUserId weeklyStats store) = store @ [ins]"
  using assms
  by (auto simp: generateAIInsight_def Let_def createInsight_def insightKey_def
           split: option.splits sum.splits if_splits)

lemma generateAIInsight_key_present:
  assumes "(currentUserId, isoDate (getCurrentWeekStart tz now)) \<in> insightKey ` set store"
  shows "snd (generateAIInsight mockAIInsights tz now currentUserId weeklyStats store) = store
       \<and> fst (generateAIInsight mockAIInsights tz now currentUserId weeklyStats store) \<noteq> Created ins"
  using assms
  by (auto simp: generateAIInsight_def Let_def createInsight_def insightKey_def
           split: option.splits sum.splits if_splits)

subsection \<open>The dominant mood\<close>

text \<open>
  C1 (as the code has it). For statistics with at least one entry and a non-empty
  distribution, the dominant mood is a mood type of maximal count, and among several
  tied for the maximum it is the one that comes last in the key order of
  \<^verbatim>\<open>moodDistribution\<close> (the order in which the mood types first occur among the week's
  entries), not the first in declaration order. For a tie between HAPPY and CALM, both
  with count 2, the dominant mood is CALM when HAPPY is the earlier key and HAPPY when
  CALM is the earlier key.
\<close>

theorem dominant_mood_is_last_maximum:
  assumes "totalMoods stats \<noteq> 0" and "moodDistribution stats \<noteq> []"
  shows "(\<exists>k v pre post.
            classifyDominantMood (Some stats) = Inr (Some k)
          \<and> moodDistribution stats = pre @ (k, v) # post
          \<and> (\<forall>e\<in>set pre. snd e \<le> v)
          \<and> (\<forall>e\<in>set post. snd e < v))
       \<and> (moodDistribution stats = [(HAPPY, 2), (CALM, 2)]
            \<longrightarrow> classifyDominantMood (Some stats) = Inr (Some CALM))
       \<and> (moodDistribution stats = [(CALM, 2), (HAPPY, 2)]
            \<longrightarrow> classifyDominantMood (Some stats) = Inr (Some HAPPY))"
proof (intro conjI)
  obtain x xs where xs: "moodDistribution stats = x # xs"
    using assms(2) by (cases "moodDistribution stats") auto
  let ?r = "foldl (\<lambda>a b. if snd a > snd b then a else b) x xs"
  have c: "classifyDominantMood (Some stats) = Inr (Some (fst ?r))"
    using assms(1) by (simp add: classifyDominantMood_def dominantMoodEntry_def xs)
  obtain pre post where
    d: "x # xs = pre @ ?r # post" and
    p: "\<forall>e\<in>set pre. snd e \<le> snd ?r" and
    q: "\<forall>e\<in>set post. snd e < snd ?r"
    using foldl_last_max [of x xs] by (elim exE conjE)
  show "\<exists>k v pre post.
            classifyDominantMood (Some stats) = Inr (Some k)
          \<and> moodDistribution stats = pre @ (k, v) # post
          \<and> (\<forall>e\<in>set pre. snd e \<le> v)
          \<and> (\<forall>e\<in>set post. snd e < v)"
  proof (intro exI conjI)
    show "classifyDominantMood (Some stats) = Inr (Some (fst ?r))" by (rule c)
    show "moodDistribution stats = pre @ (fst ?r, snd ?r) # post" using d by (simp add: xs)
    show "\<forall>e\<in>set pre. snd e \<le> snd ?r" by (rule p)
    show "\<forall>e\<in>set post. snd e < snd ?r" by (rule q)
  qed
  show "moodDistribution stats = [(HAPPY, 2), (CALM, 2)]
            \<longrightarrow> classifyDominantMood (Some stats) = Inr (Some CALM)"
    using assms(1) by (simp add: classifyDominantMood_def dominantMoodEntry_def)
  show "moodDistribution stats = [(CALM, 2), (HAPPY, 2)]
            \<longrightarrow> classifyDominantMood (Some stats) = Inr (Some HAPPY)"
    using assms(1) by (simp add: classifyDominantMood_def dominantMoodEntry_def)
qed

theorem dominant_mood_is_last_maximum_witness:
  "classifyDominantMood (Some (generateWeeklyStats
      [\<lparr>moodType = HAPPY, intensity = 5, date = ''2024-01-01''\<rparr>,
       \<lparr>moodType = HAPPY, intensity = 6, date = ''2024-01-02''\<rparr>,
       \<lparr>moodType = CALM, intensity = 5, date = ''2024-01-03''\<rparr>,
       \<lparr>moodType = CALM, intensity = 4, date = ''2024-01-04''\<rparr>])) = Inr (Some CALM)"
proof -
  let ?s = "generateWeeklyStats
      [\<lparr>moodType = HAPPY, intensity = 5, date = ''2024-01-01''\<rparr>,
       \<lparr>moodType = HAPPY, intensity = 6, date = ''2024-01-02''\<rparr>,
       \<lparr>moodType = CALM, intensity = 5, date = ''2024-01-03''\<rparr>,
       \<lparr>moodType = CALM, intensity = 4, date = ''2024-01-04''\<rparr>]"
  have total: "totalMoods ?s \<noteq> 0"
    by (simp add: generateWeeklyStats_def Let_def)
  have d: "moodDistribution ?s = [(HAPPY, 2), (CALM, 2)]"
    by (simp add: generateWeeklyStats_def Let_def)
  then have nonempty: "moodDistribution ?s \<noteq> []"
    by simp
  have "moodDistribution ?s = [(HAPPY, 2), (CALM, 2)]
          \<longrightarrow> classifyDominantMood (Some ?s) = Inr (Some CALM)"
    using dominant_mood_is_last_maximum [OF total nonempty] by (rule conjunct2 [THEN conjunct1])
  then show ?thesis using d by (rule mp)
qed

text \<open>
  The tie of the specification's scenario 5, from entries that log HAPPY first: the
  distribution is HAPPY 2, CALM 2 and the dominant mood is not HAPPY.
\<close>

theorem dominant_mood_tie_not_declaration_order:
  "moodDistribution (generateWeeklyStats
      [\<lparr>moodType = HAPPY, intensity = 5, date = ''2024-01-01''\<rparr>,
       \<lparr>moodType = HAPPY, intensity = 6, date = ''2024-01-02''\<rparr>,
       \<lparr>moodType = CALM, intensity = 5, date = ''2024-01-03''\<rparr>,
       \<lparr>moodType = CALM, intensity = 4, date = ''2024-01-04''\<rparr>]) = [(HAPPY, 2), (CALM, 2)]
   \<and> classifyDominantMood (Some (generateWeeklyStats
      [\<lparr>moodType = HAPPY, intensity = 5, date = ''2024-01-01''\<rparr>,
       \<lparr>moodType = HAPPY, intensity = 6, date = ''2024-01-02''\<rparr>,
       \<lparr>moodType = CALM, intensity = 5, date = ''2024-01-03''\<rparr>,
       \<lparr>moodType = CALM, intensity = 4, date = ''2024-01-04''\<rparr>])) \<noteq> Inr (Some HAPPY)"
  by (simp add: stats_simps classifyDominantMood_def dominantMoodEntry_def)

subsection \<open>The aggregation\<close>

text \<open>
  C2 (as the code has it). \<^verbatim>\<open>generateWeeklyStats\<close> validates nothing: every entry the
  store returns, whatever its intensity, is counted in \<^verbatim>\<open>totalMoods\<close>, enters the
  mean behind \<^verbatim>\<open>averageIntensity\<close>, is counted under its mood type in
  \<^verbatim>\<open>moodDistribution\<close> and contributes its date to \<^verbatim>\<open>moodStreak\<close>. The
  aggregation has no failing branch.
\<close>

theorem generateWeeklyStats_aggregates_every_entry:
  "totalMoods (generateWeeklyStats moods) = length moods
   \<and> (moods \<noteq> [] \<longrightarrow>
        \<bar>averageIntensity (generateWeeklyStats moods)
           - real_of_int (sum_list (map intensity moods)) / real (length moods)\<bar> \<le> 1 / 20)
   \<and> sum_list (map snd (moodDistribution (generateWeeklyStats moods))) = length moods
   \<and> (\<forall>m\<in>set moods. moodType m \<in> fst ` set (moodDistribution (generateWeeklyStats moods)))
   \<and> moodStreak (generateWeeklyStats moods) = card (date ` set moods)"
proof (intro conjI)
  show "totalMoods (generateWeeklyStats moods) = length moods"
    by (rule generateWeeklyStats_total)
  show "moods \<noteq> [] \<longrightarrow>
        \<bar>averageIntensity (generateWeeklyStats moods)
           - real_of_int (sum_list (map intensity moods)) / real (length moods)\<bar> \<le> 1 / 20"
  proof (intro impI)
    assume nonempty: "moods \<noteq> []"
    have average: "averageIntensity (generateWeeklyStats moods)
        = real_of_int (Math_round
            (real_of_int (sum_list (map intensity moods)) / real (length moods) * 10)) / 10"
      using nonempty by (simp add: generateWeeklyStats_average)
    show "\<bar>averageIntensity (generateWeeklyStats moods)
           - real_of_int (sum_list (map intensity moods)) / real (length moods)\<bar> \<le> 1 / 20"
      unfolding average by (rule rounded_close)
  qed
  show "sum_list (map snd (moodDistribution (generateWeeklyStats moods))) = length moods"
    by (simp add: generateWeeklyStats_distribution foldl_countMood_sum)
  show "\<forall>m\<in>set moods. moodType m \<in> fst ` set (moodDistribution (generateWeeklyStats moods))"
    by (simp add: generateWeeklyStats_distribution foldl_countMood_keys)
  show "moodStreak (generateWeeklyStats moods) = card (date ` set moods)"
    by (rule generateWeeklyStats_streak)
qed

theorem generateWeeklyStats_aggregates_every_entry_witness:
  "totalMoods (generateWeeklyStats
      [\<lparr>moodType = HAPPY, intensity = 15, date = ''2024-01-01''\<rparr>,
       \<lparr>moodType = SAD, intensity = 3, date = ''2024-01-02''\<rparr>]) = 2
   \<and> averageIntensity (generateWeeklyStats
      [\<lparr>moodType = HAPPY, intensity = 15, date = ''2024-01-01''\<rparr>,
       \<lparr>moodType = SAD, intensity = 3, date = ''2024-01-02''\<rparr>]) = 9
   \<and> moodStreak (generateWeeklyStats
      [\<lparr>moodType = HAPPY, intensity = 15, date = ''2024-01-01''\<rparr>,
       \<lparr>moodType = SAD, intensity = 3, date = ''2024-01-02''\<rparr>]) = 2"
  using generateWeeklyStats_aggregates_every_entry [of
      "[\<lparr>moodType = HAPPY, intensity = 15, date = ''2024-01-01''\<rparr>,
        \<lparr>moodType = SAD, intensity = 3, date = ''2024-01-02''\<rparr>]"]
  by (simp add: stats_simps)

text \<open>
  An entry of intensity 15 is not excluded: the statistics of the two entries count both,
  and differ from the statistics of the valid entry alone.
\<close>

theorem out_of_range_entry_not_excluded:
  "generateWeeklyStats
      [\<lparr>moodType = HAPPY, intensity = 15, date = ''2024-01-01''\<rparr>,
       \<lparr>moodType = SAD, intensity = 3, date = ''2024-01-02''\<rparr>]
     = \<lparr>totalMoods = 2, averageIntensity = 9,
         moodDistribution = [(HAPPY, 1), (SAD, 1)], moodStreak = 2\<rparr>
   \<and> generateWeeklyStats
      [\<lparr>moodType = HAPPY, intensity = 15, date = ''2024-01-01''\<rparr>,
       \<lparr>moodType = SAD, intensity = 3, date = ''2024-01-02''\<rparr>]
     \<noteq> generateWeeklyStats (filter specValidEntry
      [\<lparr>moodType = HAPPY, intensity = 15, date = ''2024-01-01''\<rparr>,
       \<lparr>moodType = SAD, intensity = 3, date = ''2024-01-02''\<rparr>])"
  by (simp add: stats_simps specValidEntry_def)

text \<open>
  C7. When every intensity is an integer from 1 to 10, \<^verbatim>\<open>totalMoods\<close> is the number
  of entries and, for a non-empty input, \<^verbatim>\<open>averageIntensity\<close> is the sum of the
  intensities divided by that number, rounded to one decimal place: a multiple of one
  tenth, at most half a tenth away from the mean, and so at least 1. For the empty input
  it is 0: the guard \<^verbatim>\<open>totalMoods > 0\<close> keeps the empty input from the division.
  Hence it always lies between 0 and 10 and is 0 exactly when there is no entry.
\<close>

theorem averageIntensity_rounded_mean:
  assumes "\<forall>m\<in>set moods. 1 \<le> intensity m \<and> intensity m \<le> 10"
  shows "totalMoods (generateWeeklyStats moods) = length moods
       \<and> (moods \<noteq> [] \<longrightarrow>
            (\<exists>k::int. averageIntensity (generateWeeklyStats moods) = real_of_int k / 10)
          \<and> \<bar>averageIntensity (generateWeeklyStats moods)
               - real_of_int (sum_list (map intensity moods)) / real (length moods)\<bar> \<le> 1 / 20
          \<and> averageIntensity (generateWeeklyStats moods)
               = real_of_int (Math_round
                   (real_of_int (sum_list (map intensity moods)) / real (length moods) * 10)) / 10
          \<and> 1 \<le> averageIntensity (generateWeeklyStats moods))
       \<and> (moods = [] \<longrightarrow> averageIntensity (generateWeeklyStats moods) = 0)
       \<and> 0 \<le> averageIntensity (generateWeeklyStats moods)
       \<and> averageIntensity (generateWeeklyStats moods) \<le> 10
       \<and> (averageIntensity (generateWeeklyStats moods) = 0
            \<longleftrightarrow> totalMoods (generateWeeklyStats moods) = 0)"
proof (cases "moods = []")
  case True
  then show ?thesis
    by (simp add: generateWeeklyStats_average generateWeeklyStats_total Math_round_def)
next
  case False
  define n where "n = length moods"
  define q where "q = real_of_int (sum_list (map intensity moods)) / real n"
  have n: "0 < n" using False by (simp add: n_def)
  have b: "1 * int n \<le> sum_list (map intensity moods) \<and> sum_list (map intensity moods) \<le> 10 * int n"
    unfolding n_def using assms by (rule sum_list_bounds)
  have q1: "1 \<le> q"
    using b n by (simp add: q_def le_divide_eq)
  have q10: "q \<le> 10"
    using b n by (simp add: q_def divide_le_eq)
  have avg: "averageIntensity (generateWeeklyStats moods) = real_of_int (Math_round (q * 10)) / 10"
    using False by (simp add: generateWeeklyStats_average q_def n_def)
  have "Math_round (real_of_int 10) \<le> Math_round (q * 10)"
    by (rule Math_round_mono) (use q1 in simp)
  then have lo: "10 \<le> Math_round (q * 10)"
    by (simp only: Math_round_of_int)
  have "Math_round (q * 10) \<le> Math_round (real_of_int 100)"
    by (rule Math_round_mono) (use q10 in simp)
  then have hi: "Math_round (q * 10) \<le> 100"
    by (simp only: Math_round_of_int)
  have close: "\<bar>averageIntensity (generateWeeklyStats moods) - q\<bar> \<le> 1 / 20"
    unfolding avg by (rule rounded_close)
  have total: "totalMoods (generateWeeklyStats moods) = length moods"
    by (rule generateWeeklyStats_total)
  have tenth: "\<exists>k::int. averageIntensity (generateWeeklyStats moods) = real_of_int k / 10"
    unfolding avg by (rule exI [of _ "Math_round (q * 10)"]) (rule refl)
  have one: "1 \<le> averageIntensity (generateWeeklyStats moods)"
    using lo by (simp add: avg)
  have ten: "averageIntensity (generateWeeklyStats moods) \<le> 10"
    using hi by (simp add: avg)
  have nonzero: "averageIntensity (generateWeeklyStats moods) \<noteq> 0"
    using one by simp
  have positive: "0 \<le> averageIntensity (generateWeeklyStats moods)"
    using one by simp
  have tz: "totalMoods (generateWeeklyStats moods) \<noteq> 0"
    using n by (simp add: total n_def)
  show ?thesis
  proof (intro conjI impI)
    show "totalMoods (generateWeeklyStats moods) = length moods" by (rule total)
    show "\<exists>k::int. averageIntensity (generateWeeklyStats moods) = real_of_int k / 10"
      by (rule tenth)
    show "\<bar>averageIntensity (generateWeeklyStats moods)
               - real_of_int (sum_list (map intensity moods)) / real (length moods)\<bar> \<le> 1 / 20"
      using close by (simp only: q_def n_def)
    show "averageIntensity (generateWeeklyStats moods)
               = real_of_int (Math_round
                   (real_of_int (sum_list (map intensity moods)) / real (length moods) * 10)) / 10"
      using avg by (simp only: q_def n_def)
    show "1 \<le> averageIntensity (generateWeeklyStats moods)" by (rule one)
    show "averageIntensity (generateWeeklyStats moods) = 0" if "moods = []"
      using that False by simp
    show "0 \<le> averageIntensity (generateWeeklyStats moods)" by (rule positive)
    show "averageIntensity (generateWeeklyStats moods) \<le> 10" by (rule ten)
    show "(averageIntensity (generateWeeklyStats moods) = 0)
            = (totalMoods (generateWeeklyStats moods) = 0)"
      using nonzero tz by simp
  qed
qed

theorem averageIntensity_rounded_mean_witness:
  "totalMoods (generateWeeklyStats
      [\<lparr>moodType = HAPPY, intensity = 8, date = ''2024-01-01''\<rparr>,
       \<lparr>moodType = HAPPY, intensity = 6, date = ''2024-01-02''\<rparr>,
       \<lparr>moodType = SAD, intensity = 3, date = ''2024-01-03''\<rparr>]) = 3
   \<and> averageIntensity (generateWeeklyStats
      [\<lparr>moodType = HAPPY, intensity = 8, date = ''2024-01-01''\<rparr>,
       \<lparr>moodType = HAPPY, intensity = 6, date = ''2024-01-02''\<rparr>,
       \<lparr>moodType = SAD, intensity = 3, date = ''2024-01-03''\<rparr>]) = 57 / 10
   \<and> \<bar>averageIntensity (generateWeeklyStats
      [\<lparr>moodType = HAPPY, intensity = 8, date = ''2024-01-01''\<rparr>,
       \<lparr>moodType = HAPPY, intensity = 6, date = ''2024-01-02''\<rparr>,
       \<lparr>moodType = SAD, intensity = 3, date = ''2024-01-03''\<rparr>]) - 17 / 3\<bar> \<le> 1 / 20
   \<and> 0 \<le> averageIntensity (generateWeeklyStats
      [\<lparr>moodType = HAPPY, intensity = 8, date = ''2024-01-01''\<rparr>,
       \<lparr>moodType = HAPPY, intensity = 6, date = ''2024-01-02''\<rparr>,
       \<lparr>moodType = SAD, intensity = 3, date = ''2024-01-03''\<rparr>])
   \<and> averageIntensity (generateWeeklyStats
      [\<lparr>moodType = HAPPY, intensity = 8, date = ''2024-01-01''\<rparr>,
       \<lparr>moodType = HAPPY, intensity = 6, date = ''2024-01-02''\<rparr>,
       \<lparr>moodType = SAD, intensity = 3, date = ''2024-01-03''\<rparr>]) \<le> 10
   \<and> (averageIntensity (generateWeeklyStats
      [\<lparr>moodType = HAPPY, intensity = 8, date = ''2024-01-01''\<rparr>,
       \<lparr>moodType = HAPPY, intensity = 6, date = ''2024-01-02''\<rparr>,
       \<lparr>moodType = SAD, intensity = 3, date = ''2024-01-03''\<rparr>]) = 0)
     = (totalMoods (generateWeeklyStats
      [\<lparr>moodType = HAPPY, intensity = 8, date = ''2024-01-01''\<rparr>,
       \<lparr>moodType = HAPPY, intensity = 6, date = ''2024-01-02''\<rparr>,
       \<lparr>moodType = SAD, intensity = 3, date = ''2024-01-03''\<rparr>]) = 0)"
proof -
  let ?moods = "[\<lparr>moodType = HAPPY, intensity = 8, date = ''2024-01-01''\<rparr>,
       \<lparr>moodType = HAPPY, intensity = 6, date = ''2024-01-02''\<rparr>,
       \<lparr>moodType = SAD, intensity = 3, date = ''2024-01-03''\<rparr>]"
  have range: "\<forall>m\<in>set ?moods. 1 \<le> intensity m \<and> intensity m \<le> 10"
    by simp
  note fact = averageIntensity_rounded_mean [OF range]
  have total: "totalMoods (generateWeeklyStats ?moods) = 3"
    using fact [THEN conjunct1] by simp
  have "?moods \<noteq> []" by simp
  then have close: "\<bar>averageIntensity (generateWeeklyStats ?moods)
      - real_of_int (sum_list (map intensity ?moods)) / real (length ?moods)\<bar> \<le> 1 / 20"
    using fact [THEN conjunct2, THEN conjunct1] by (elim impE conjE) assumption
  then have close': "\<bar>averageIntensity (generateWeeklyStats ?moods) - 17 / 3\<bar> \<le> 1 / 20"
    by simp
  have v: "averageIntensity (generateWeeklyStats ?moods) = 57 / 10"
    by (simp add: stats_simps)
  have tail: "0 \<le> averageIntensity (generateWeeklyStats ?moods)
      \<and> averageIntensity (generateWeeklyStats ?moods) \<le> 10
      \<and> (averageIntensity (generateWeeklyStats ?moods) = 0)
          = (totalMoods (generateWeeklyStats ?moods) = 0)"
    by (rule fact [THEN conjunct2, THEN conjunct2, THEN conjunct2])
  show ?thesis
    using total v close' tail by (intro conjI) (elim conjE, assumption)+
qed

text \<open>
  C10. The distribution counts each aggregated entry exactly once: its counts add up to
  \<^verbatim>\<open>totalMoods\<close>, its keys are distinct and are exactly the mood types that occur
  among the entries (so each is one of the five mood types), and each count is the
  number of entries of that mood type, hence at least 1.
\<close>

theorem moodDistribution_counts_each_entry_once:
  "sum_list (map snd (moodDistribution (generateWeeklyStats moods))) = totalMoods (generateWeeklyStats moods)
   \<and> distinct (map fst (moodDistribution (generateWeeklyStats moods)))
   \<and> fst ` set (moodDistribution (generateWeeklyStats moods)) = moodType ` set moods
   \<and> fst ` set (moodDistribution (generateWeeklyStats moods)) \<subseteq> {HAPPY, SAD, ENERGETIC, CALM, ANXIOUS}
   \<and> (\<forall>e\<in>set (moodDistribution (generateWeeklyStats moods)).
         1 \<le> snd e \<and> snd e = length (filter (\<lambda>m. moodType m = fst e) moods))"
proof -
  let ?d = "moodDistribution (generateWeeklyStats moods)"
  have d: "?d = foldl countMood [] moods" by (rule generateWeeklyStats_distribution)
  have s: "sum_list (map snd ?d) = totalMoods (generateWeeklyStats moods)"
    by (simp add: d foldl_countMood_sum generateWeeklyStats_total)
  have dist: "distinct (map fst ?d)"
    unfolding d by (rule foldl_countMood_distinct) simp
  have keys: "fst ` set ?d = moodType ` set moods"
    by (simp add: d foldl_countMood_keys)
  have five: "fst ` set ?d \<subseteq> {HAPPY, SAD, ENERGETIC, CALM, ANXIOUS}"
  proof
    fix k assume "k \<in> fst ` set ?d"
    show "k \<in> {HAPPY, SAD, ENERGETIC, CALM, ANXIOUS}" by (cases k) simp_all
  qed
  have pos: "\<forall>e\<in>set ?d. 1 \<le> snd e"
    unfolding d by (rule foldl_countMood_positive) simp
  have cnt: "snd e = length (filter (\<lambda>m. moodType m = fst e) moods)" if "e \<in> set ?d" for e
  proof -
    have "map_of ?d (fst e) = Some (snd e)"
      using dist that by (cases e) simp
    then show ?thesis
      by (simp add: d foldl_countMood_map_of split: if_splits)
  qed
  show ?thesis using s dist keys five pos cnt by blast
qed

theorem moodDistribution_counts_each_entry_once_witness:
  "moodDistribution (generateWeeklyStats
      [\<lparr>moodType = HAPPY, intensity = 8, date = ''2024-01-01''\<rparr>,
       \<lparr>moodType = HAPPY, intensity = 6, date = ''2024-01-02''\<rparr>,
       \<lparr>moodType = SAD, intensity = 3, date = ''2024-01-03''\<rparr>]) = [(HAPPY, 2), (SAD, 1)]
   \<and> sum_list (map snd (moodDistribution (generateWeeklyStats
      [\<lparr>moodType = HAPPY, intensity = 8, date = ''2024-01-01''\<rparr>,
       \<lparr>moodType = HAPPY, intensity = 6, date = ''2024-01-02''\<rparr>,
       \<lparr>moodType = SAD, intensity = 3, date = ''2024-01-03''\<rparr>])))
     = totalMoods (generateWeeklyStats
      [\<lparr>moodType = HAPPY, intensity = 8, date = ''2024-01-01''\<rparr>,
       \<lparr>moodType = HAPPY, intensity = 6, date = ''2024-01-02''\<rparr>,
       \<lparr>moodType = SAD, intensity = 3, date = ''2024-01-03''\<rparr>])"
proof -
  let ?moods = "[\<lparr>moodType = HAPPY, intensity = 8, date = ''2024-01-01''\<rparr>,
       \<lparr>moodType = HAPPY, intensity = 6, date = ''2024-01-02''\<rparr>,
       \<lparr>moodType = SAD, intensity = 3, date = ''2024-01-03''\<rparr>]"
  have d: "moodDistribution (generateWeeklyStats ?moods) = [(HAPPY, 2), (SAD, 1)]"
    by (simp add: generateWeeklyStats_def Let_def)
  show ?thesis
    using d moodDistribution_counts_each_entry_once [of ?moods, THEN conjunct1] by (rule conjI)
qed

subsection \<open>The weekly score\<close>

text \<open>
  C5. The weekly score is the base 5, adjusted by the average intensity (plus 2 from 7
  up, else plus 1 from 5 up, else minus 2 up to 3), by the number of distinct mood types
  (plus 1 from 4 up, minus 1 up to 2) and by the number of distinct days (plus 1 from 6
  up, minus 1 up to 2), then clamped once to the range 1 to 10. An average of 7.5 with 4
  mood types and 7 days gives 9.
\<close>

theorem calculateWeeklyScore_formula:
  "calculateWeeklyScore (Some stats) =
     max 1 (min 10
       (5
        + (if averageIntensity stats \<ge> 7 then 2
           else if averageIntensity stats \<ge> 5 then 1
           else if averageIntensity stats \<le> 3 then - 2 else 0)
        + (if length (moodDistribution stats) \<ge> 4 then 1 else 0)
        - (if length (moodDistribution stats) \<le> 2 then 1 else 0)
        + (if moodStreak stats \<ge> 6 then 1 else 0)
        - (if moodStreak stats \<le> 2 then 1 else 0)))
   \<and> (averageIntensity stats = 75 / 10 \<and> length (moodDistribution stats) = 4 \<and> moodStreak stats = 7
        \<longrightarrow> calculateWeeklyScore (Some stats) = 9)"
  by (simp add: calculateWeeklyScore_def Let_def)

theorem calculateWeeklyScore_formula_witness:
  "calculateWeeklyScore (Some
      \<lparr>totalMoods = 8, averageIntensity = 75 / 10,
        moodDistribution = [(HAPPY, 2), (SAD, 2), (ENERGETIC, 2), (CALM, 2)],
        moodStreak = 7\<rparr>) = 9"
  using calculateWeeklyScore_formula [of
      "\<lparr>totalMoods = 8, averageIntensity = 75 / 10,
        moodDistribution = [(HAPPY, 2), (SAD, 2), (ENERGETIC, 2), (CALM, 2)],
        moodStreak = 7\<rparr>"]
  by simp

text \<open>
  C6. For every input, the empty week's statistics and the absent statistics included,
  \<^verbatim>\<open>calculateWeeklyScore\<close> returns an integer between 1 and 10: the final clamp bounds
  the result whatever the adjustments sum to.
\<close>

theorem calculateWeeklyScore_in_range:
  "1 \<le> calculateWeeklyScore weeklyStats \<and> calculateWeeklyScore weeklyStats \<le> 10"
  by (simp add: calculateWeeklyScore_def Let_def split: option.split)

subsection \<open>The recommendation text\<close>

lemmas sentences = calmingSuggestion_def socialSupportSuggestion_def positivitySuggestion_def
  channelEnergySuggestion_def reflectionSuggestion_def consistencyReminder_def genericEncouragement_def

text \<open>
  C9. For statistics and a dominant mood, \<^verbatim>\<open>generateMockRecommendations\<close> returns the
  sentence of the rule table (if a row applies), followed by the consistency reminder
  exactly when fewer than 3 distinct days were tracked; when no row applies and at least
  3 days were tracked it returns the generic encouragement, and in no other case. The
  result is never the empty string.
\<close>

theorem generateMockRecommendations_rule_table:
  "generateMockRecommendations (Some stats) dominant =
     (case (specMoodRule dominant (averageIntensity stats), moodStreak stats < 3) of
        (Some sentence, True) \<Rightarrow> sentence @ '' '' @ consistencyReminder
      | (Some sentence, False) \<Rightarrow> sentence
      | (None, True) \<Rightarrow> consistencyReminder
      | (None, False) \<Rightarrow> genericEncouragement)
   \<and> generateMockRecommendations (Some stats) dominant \<noteq> []
   \<and> (generateMockRecommendations (Some stats) dominant = genericEncouragement
        \<longleftrightarrow> specMoodRule dominant (averageIntensity stats) = None \<and> moodStreak stats \<ge> 3)"
  by (cases dominant) (auto simp: generateMockRecommendations_def Let_def sentences)

theorem generateMockRecommendations_rule_table_witness:
  "generateMockRecommendations (Some
      \<lparr>totalMoods = 3, averageIntensity = 57 / 10,
        moodDistribution = [(HAPPY, 2), (SAD, 1)], moodStreak = 3\<rparr>) HAPPY
     = genericEncouragement
   \<and> generateMockRecommendations (Some
      \<lparr>totalMoods = 2, averageIntensity = 7,
        moodDistribution = [(ANXIOUS, 2)], moodStreak = 2\<rparr>) ANXIOUS
     = calmingSuggestion @ '' '' @ consistencyReminder"
  using generateMockRecommendations_rule_table [of
      "\<lparr>totalMoods = 3, averageIntensity = 57 / 10,
        moodDistribution = [(HAPPY, 2), (SAD, 1)], moodStreak = 3\<rparr>" HAPPY]
    generateMockRecommendations_rule_table [of
      "\<lparr>totalMoods = 2, averageIntensity = 7,
        moodDistribution = [(ANXIOUS, 2)], moodStreak = 2\<rparr>" ANXIOUS]
  by simp

subsection \<open>The start of the week\<close>

text \<open>
  C4, evaluated on a Sunday. At noon UTC on Sunday 7 January 2024 (day 19729, in a
  browser on UTC) \<^verbatim>\<open>getDay()\<close> is 0, so \<^verbatim>\<open>getCurrentWeekStart\<close> moves one day
  forward: the week start is Monday 8 January (day 19730), while the Monday of the ISO
  week that contains the Sunday is 1 January (day 19723). The week end is still the
  week start plus 6 days.
\<close>

theorem getCurrentWeekStart_on_a_sunday:
  "getDay 0 1704628800000 = 0
   \<and> Day (LocalTime 0 1704628800000) = 19729
   \<and> isoDate (getCurrentWeekStart 0 1704628800000) = 19730
   \<and> specMondayOfISOWeek 19729 = 19723
   \<and> isoDate (getCurrentWeekStart 0 1704628800000)
       \<noteq> specMondayOfISOWeek (Day (LocalTime 0 1704628800000))
   \<and> isoDate (addToDate 0 (getCurrentWeekStart 0 1704628800000) 6) = 19736"
  by (simp add: date_simps specMondayOfISOWeek_def)

subsection \<open>The empty week\<close>

text \<open>
  C8. For statistics with no entry the dominant-mood path of \<^verbatim>\<open>generateAIInsight\<close>
  yields no mood and no failure: the guard returns first, so no insight or recommendation
  text is generated and the store is left as it was.
\<close>

theorem empty_week_no_insight:
  assumes "totalMoods stats = 0"
  shows "classifyDominantMood (Some stats) = Inr None
       \<and> generateAIInsight mockAIInsights tz now currentUserId (Some stats) store
           = (NotEnoughData, store)"
  using assms by (simp add: classifyDominantMood_def generateAIInsight_def)

theorem empty_week_no_insight_witness:
  "totalMoods (generateWeeklyStats []) = 0
   \<and> moodDistribution (generateWeeklyStats []) = []
   \<and> classifyDominantMood (Some (generateWeeklyStats [])) = Inr None
   \<and> generateAIInsight (\<lambda>stats mood. []) 0 1704628800000 ''user-1''
        (Some (generateWeeklyStats [])) []
       = (NotEnoughData, [])"
  using empty_week_no_insight [of "generateWeeklyStats []" "\<lambda>stats mood. []" 0 1704628800000
      "''user-1''" "[]"]
  by (simp add: stats_simps)

subsection \<open>One insight per user and week\<close>

text \<open>
  C3. In every reachable state of the insight store no two records share the pair
  (userId, weekStartDate). A create for a pair that is present answers
  \<open>DuplicateKey\<close> and leaves the store unchanged, so creating the same record twice
  leaves exactly one record of that pair. \<^verbatim>\<open>generateAIInsight\<close> keeps the store
  reachable, and after a run that created a record, a later run for the same user in
  the same week creates nothing: the store keeps exactly one record of that pair.
\<close>

theorem insight_store_one_per_user_week:
  assumes "reachable store"
  shows "distinct (map insightKey store)
       \<and> length (filter (\<lambda>j. insightKey j = k) store) \<le> 1
       \<and> (insightKey i \<in> insightKey ` set store \<longrightarrow> createInsight i store = (Inl DuplicateKey, store))
       \<and> createInsight i (snd (createInsight i store)) = (Inl DuplicateKey, snd (createInsight i store))
       \<and> length (filter (\<lambda>j. insightKey j = insightKey i)
                    (snd (createInsight i (snd (createInsight i store))))) = 1
       \<and> reachable (snd (generateAIInsight mockAIInsights tz now currentUserId weeklyStats store))
       \<and> (fst (generateAIInsight mockAIInsights tz now currentUserId weeklyStats store) = Created ins
            \<and> isoDate (getCurrentWeekStart tz later) = isoDate (getCurrentWeekStart tz now)
          \<longrightarrow> snd (generateAIInsight mockAIInsights' tz later currentUserId weeklyStats' (store @ [ins]))
                = store @ [ins]
              \<and> fst (generateAIInsight mockAIInsights' tz later currentUserId weeklyStats' (store @ [ins]))
                \<noteq> Created ins'
              \<and> snd (generateAIInsight mockAIInsights tz now currentUserId weeklyStats store)
                = store @ [ins]
              \<and> length (filter (\<lambda>j. insightKey j = insightKey ins) (store @ [ins])) = 1)"
proof (intro conjI)
  show dist: "distinct (map insightKey store)"
    using assms by (rule reachable_distinct)
  show "length (filter (\<lambda>j. insightKey j = k) store) \<le> 1"
    using dist by (simp add: count_key)
  show "insightKey i \<in> insightKey ` set store \<longrightarrow> createInsight i store = (Inl DuplicateKey, store)"
    by (simp add: createInsight_def)
  show "createInsight i (snd (createInsight i store)) = (Inl DuplicateKey, snd (createInsight i store))"
    by (rule createInsight_twice)
  have "distinct (map insightKey (snd (createInsight i store)))"
    using dist by (rule createInsight_distinct)
  then show "length (filter (\<lambda>j. insightKey j = insightKey i)
                    (snd (createInsight i (snd (createInsight i store))))) = 1"
    by (simp add: createInsight_twice count_key createInsight_key_present)
  show "reachable (snd (generateAIInsight mockAIInsights tz now currentUserId weeklyStats store))"
    using assms by (rule generateAIInsight_reachable)
  show "fst (generateAIInsight mockAIInsights tz now currentUserId weeklyStats store) = Created ins
            \<and> isoDate (getCurrentWeekStart tz later) = isoDate (getCurrentWeekStart tz now)
          \<longrightarrow> snd (generateAIInsight mockAIInsights' tz later currentUserId weeklyStats' (store @ [ins]))
                = store @ [ins]
              \<and> fst (generateAIInsight mockAIInsights' tz later currentUserId weeklyStats' (store @ [ins]))
                \<noteq> Created ins'
              \<and> snd (generateAIInsight mockAIInsights tz now currentUserId weeklyStats store)
                = store @ [ins]
              \<and> length (filter (\<lambda>j. insightKey j = insightKey ins) (store @ [ins])) = 1"
  proof (intro impI, elim conjE)
    assume c: "fst (generateAIInsight mockAIInsights tz now currentUserId weeklyStats store) = Created ins"
      and w: "isoDate (getCurrentWeekStart tz later) = isoDate (getCurrentWeekStart tz now)"
    show "snd (generateAIInsight mockAIInsights' tz later currentUserId weeklyStats' (store @ [ins]))
                = store @ [ins]
              \<and> fst (generateAIInsight mockAIInsights' tz later currentUserId weeklyStats' (store @ [ins]))
                \<noteq> Created ins'
              \<and> snd (generateAIInsight mockAIInsights tz now currentUserId weeklyStats store)
                = store @ [ins]
              \<and> length (filter (\<lambda>j. insightKey j = insightKey ins) (store @ [ins])) = 1"
    proof (intro conjI)
      have cr: "insightKey ins = (currentUserId, isoDate (getCurrentWeekStart tz now))
          \<and> snd (generateAIInsight mockAIInsights tz now currentUserId weeklyStats store) = store @ [ins]"
        using c by (rule generateAIInsight_created)
      then have present: "(currentUserId, isoDate (getCurrentWeekStart tz later))
          \<in> insightKey ` set (store @ [ins])"
        using w by simp
      show "snd (generateAIInsight mockAIInsights' tz later currentUserId weeklyStats' (store @ [ins]))
              = store @ [ins]"
        using generateAIInsight_key_present [OF present] by (rule conjunct1)
      show "fst (generateAIInsight mockAIInsights' tz later currentUserId weeklyStats' (store @ [ins]))
              \<noteq> Created ins'"
        using generateAIInsight_key_present [OF present] by (rule conjunct2)
      show "snd (generateAIInsight mockAIInsights tz now currentUserId weeklyStats store) = store @ [ins]"
        using cr by (rule conjunct2)
      have "reachable (store @ [ins])"
        using generateAIInsight_reachable [OF assms, of mockAIInsights tz now currentUserId weeklyStats] cr
        by simp
      then have "distinct (map insightKey (store @ [ins]))"
        by (rule reachable_distinct)
      then show "length (filter (\<lambda>j. insightKey j = insightKey ins) (store @ [ins])) = 1"
        by (simp only: count_key) simp
    qed
  qed
qed

theorem insight_store_one_per_user_week_witness:
  "distinct (map insightKey [])
   \<and> createInsight
        \<lparr>userId = ''user-1'', weekStartDate = 19723, weekEndDate = 19729,
          overallMoodTrend = ''stable'', dominantMood = HAPPY, moodVariability = 2 / 5,
          insights = [], recommendations = genericEncouragement,
          moodFrequency = [(HAPPY, 2), (SAD, 1)], weeklyScore = 5\<rparr>
        (snd (createInsight
          \<lparr>userId = ''user-1'', weekStartDate = 19723, weekEndDate = 19729,
            overallMoodTrend = ''stable'', dominantMood = HAPPY, moodVariability = 2 / 5,
            insights = [], recommendations = genericEncouragement,
            moodFrequency = [(HAPPY, 2), (SAD, 1)], weeklyScore = 5\<rparr> []))
     = (Inl DuplicateKey,
        [\<lparr>userId = ''user-1'', weekStartDate = 19723, weekEndDate = 19729,
          overallMoodTrend = ''stable'', dominantMood = HAPPY, moodVariability = 2 / 5,
          insights = [], recommendations = genericEncouragement,
          moodFrequency = [(HAPPY, 2), (SAD, 1)], weeklyScore = 5\<rparr>])"
  using insight_store_one_per_user_week [OF reachable.initial, of
        "(''user-1'', 19723)"
        "\<lparr>userId = ''user-1'', weekStartDate = 19723, weekEndDate = 19729,
          overallMoodTrend = ''stable'', dominantMood = HAPPY, moodVariability = 2 / 5,
          insights = [], recommendations = genericEncouragement,
          moodFrequency = [(HAPPY, 2), (SAD, 1)], weeklyScore = 5\<rparr>"]
  by (simp add: createInsight_def)

end
